theory Spec2Isabelle
  imports Complex_Main "HOL-Library.AList" "HOL-Library.Multiset"
begin

section \<open>The signal dashboard: data model\<close>

text \<open>
  The dashboard component keeps a registry of trading signals (\<open>activeSignals\<close>), a
  statistics cell (\<open>stats\<close>) and a toast, all updated by the \<open>onmessage\<close> handler of a
  WebSocket, and derives a sorted, age-filtered feed from the registry.

  Numbers are JavaScript numbers in the source. Timestamps and the clock \<open>now\<close> are
  millisecond counts (\<open>Date.now()\<close>), modelled as \<open>int\<close>; prices, volumes and the
  progress percentage are modelled as \<open>real\<close>, that is without the rounding of binary
  floating point and without \<open>NaN\<close> or infinities.
\<close>

datatype SignalType = Long | Short

record Signal =
  symbol :: string
  signal_type :: SignalType
  price :: real
  volume :: real
  avg_volume :: real
  timestamp :: int
  reason :: string
  order_book_ratio :: "real option"
  oi :: "real option"
  net_inflow :: "real option"

text \<open>The fields of \<open>SignalUpdate\<close> carry the prefix \<open>u_\<close>: \<open>symbol\<close>, \<open>price\<close>,
  \<open>volume\<close> and \<open>timestamp\<close> are already fields of \<open>Signal\<close>.\<close>

record SignalUpdate =
  u_symbol :: string
  u_price :: real
  u_volume :: real
  u_timestamp :: int

record Stats =
  total_signals :: int
  win_rate :: real
  top_gainer :: string

text \<open>
  A frame is what \<open>JSON.parse(event.data)\<close> makes of the text received. The cast to
  \<open>WsMessage\<close> is unchecked, so besides the four typed messages there are:
  \<^item> \<open>Malformed\<close>: the text is not JSON (\<open>JSON.parse\<close> throws), or it parses to
    \<open>null\<close> (\<open>data.type\<close> throws);
  \<^item> \<open>Other\<close>: a value whose \<open>type\<close> is none of the four tags;
  \<^item> a payload that is \<open>null\<close> or absent where an object is expected: \<open>None\<close> in
    \<open>Signal_frame\<close> and \<open>Update_frame\<close>, and \<open>None\<close> as an element of the array of
    \<open>History_frame\<close>.
  Payloads are otherwise taken as the interfaces of \<open>types.ts\<close> declare them.
\<close>

datatype frame =
    Malformed
  | Other
  | Stats_frame Stats
  | Signal_frame "Signal option"
  | History_frame "Signal option list"
  | Update_frame "SignalUpdate option"

section \<open>State\<close>

text \<open>
  \<open>activeSignals\<close> is a plain JavaScript object used as a dictionary. Its own
  properties are kept as an association list in creation order. A plain object also has
  a prototype, which the handler can reach:
  \<^item> \<open>proto\<close> is the prototype of \<open>activeSignals\<close>: \<open>None\<close> for \<open>Object.prototype\<close> (as
    in \<open>{}\<close> and in \<open>{ ...activeSignals }\<close>), \<open>Some p\<close> when an assignment to the key
    \<open>__proto__\<close> has installed the object \<open>p\<close>;
  \<^item> \<open>object_prototype_price\<close> and \<open>object_prototype_volume\<close> are the properties
    \<open>price\<close> and \<open>volume\<close> of \<open>Object.prototype\<close>, absent until the handler writes them.

  \<open>toast_calls\<close>, \<open>beep_calls\<close> and \<open>error_calls\<close> count the calls of \<open>showToast\<close>,
  \<open>playBeep\<close> and \<open>console.error\<close>.
\<close>

record state =
  activeSignals :: "(string \<times> Signal) list"
  proto :: "Signal option"
  object_prototype_price :: "real option"
  object_prototype_volume :: "real option"
  stats :: Stats
  toastMessage :: "string option"
  toastType :: SignalType
  toast_calls :: nat
  beep_calls :: nat
  error_calls :: nat

definition initial :: state where
  "initial =
     \<lparr>activeSignals = [], proto = None,
      object_prototype_price = None, object_prototype_volume = None,
      stats = \<lparr>total_signals = 0, win_rate = 0, top_gainer = ''---''\<rparr>,
      toastMessage = None, toastType = Long,
      toast_calls = 0, beep_calls = 0, error_calls = 0\<rparr>"

section \<open>Property access on \<open>activeSignals\<close>\<close>

text \<open>
  \<open>activeSignals[k] = s\<close>. For the key \<open>__proto__\<close> the assignment runs the setter
  inherited from \<open>Object.prototype\<close>, which replaces the prototype of \<open>activeSignals\<close>
  and creates no own property. Every other key gets an own property: the value of an
  existing one is replaced in place, a new one is added last.
\<close>

definition set_property :: "Signal \<Rightarrow> state \<Rightarrow> state" where
  "set_property s st =
     (if symbol s = ''__proto__'' then st\<lparr>proto := Some s\<rparr>
      else st\<lparr>activeSignals := AList.update (symbol s) s (activeSignals st)\<rparr>)"

text \<open>\<open>activeSignals = { ...activeSignals }\<close>: a fresh object with the same own
  properties and \<open>Object.prototype\<close> as prototype.\<close>

definition spread :: "state \<Rightarrow> state" where
  "spread st = st\<lparr>proto := None\<rparr>"

text \<open>What \<open>activeSignals[k]\<close> evaluates to.\<close>

datatype property =
    Entry Signal
  | Prototype_signal Signal
  | Object_prototype
  | Builtin_function
  | Primitive bool
  | Undefined

text \<open>The data properties every \<open>Object.prototype\<close> has: all of them functions.\<close>

definition object_prototype_functions :: "string list" where
  "object_prototype_functions =
     [''constructor'', ''hasOwnProperty'', ''isPrototypeOf'', ''propertyIsEnumerable'',
      ''toLocaleString'', ''toString'', ''valueOf'',
      ''__defineGetter__'', ''__defineSetter__'', ''__lookupGetter__'', ''__lookupSetter__'']"

text \<open>The own properties of a \<open>Signal\<close> object, as far as a truthiness test sees them:
  \<open>Some b\<close> for a property whose value is truthy (\<open>b\<close>) or falsy; a string is falsy
  when empty, a number when zero.\<close>

definition signal_field :: "Signal \<Rightarrow> string \<Rightarrow> bool option" where
  "signal_field p k =
     (if k = ''symbol'' then Some (symbol p \<noteq> [])
      else if k = ''signal_type'' then Some True
      else if k = ''price'' then Some (price p \<noteq> 0)
      else if k = ''volume'' then Some (volume p \<noteq> 0)
      else if k = ''avg_volume'' then Some (avg_volume p \<noteq> 0)
      else if k = ''timestamp'' then Some (timestamp p \<noteq> 0)
      else if k = ''reason'' then Some (reason p \<noteq> [])
      else if k = ''order_book_ratio'' then map_option (\<lambda>v. v \<noteq> 0) (order_book_ratio p)
      else if k = ''oi'' then map_option (\<lambda>v. v \<noteq> 0) (oi p)
      else if k = ''net_inflow'' then map_option (\<lambda>v. v \<noteq> 0) (net_inflow p)
      else None)"

definition object_prototype_property :: "state \<Rightarrow> string \<Rightarrow> property" where
  "object_prototype_property st k =
     (if k = ''price'' then
        (case object_prototype_price st of Some v \<Rightarrow> Primitive (v \<noteq> 0) | None \<Rightarrow> Undefined)
      else if k = ''volume'' then
        (case object_prototype_volume st of Some v \<Rightarrow> Primitive (v \<noteq> 0) | None \<Rightarrow> Undefined)
      else if k \<in> set object_prototype_functions then Builtin_function
      else Undefined)"

text \<open>An own property first, then the prototype chain; \<open>__proto__\<close> reads the
  prototype itself.\<close>

definition get_property :: "state \<Rightarrow> string \<Rightarrow> property" where
  "get_property st k =
     (case map_of (activeSignals st) k of
        Some s \<Rightarrow> Entry s
      | None \<Rightarrow>
          (if k = ''__proto__'' then
             (case proto st of Some p \<Rightarrow> Prototype_signal p | None \<Rightarrow> Object_prototype)
           else
             (case proto st of
                None \<Rightarrow> object_prototype_property st k
              | Some p \<Rightarrow>
                  (case signal_field p k of
                     Some b \<Rightarrow> Primitive b
                   | None \<Rightarrow> object_prototype_property st k))))"

section \<open>The message handler\<close>

definition show_SignalType :: "SignalType \<Rightarrow> string" where
  "show_SignalType t = (case t of Long \<Rightarrow> ''Long'' | Short \<Rightarrow> ''Short'')"

text \<open>\<open>showToast\<close>; the timer that removes the toast after three seconds is not
  modelled.\<close>

definition showToast :: "Signal \<Rightarrow> state \<Rightarrow> state" where
  "showToast signal st =
     st\<lparr>toastMessage := Some (show_SignalType (signal_type signal) @ '' Signal: '' @ symbol signal),
        toastType := signal_type signal,
        toast_calls := toast_calls st + 1\<rparr>"

text \<open>\<open>playBeep\<close> only drives the audio device: the model counts the call.\<close>

definition playBeep :: "state \<Rightarrow> state" where
  "playBeep st = st\<lparr>beep_calls := beep_calls st + 1\<rparr>"

text \<open>The \<open>catch\<close> block: \<open>console.error('Error parsing message', e)\<close>.\<close>

definition log_error :: "state \<Rightarrow> state" where
  "log_error st = st\<lparr>error_calls := error_calls st + 1\<rparr>"

text \<open>
  \<open>history.forEach(s => { activeSignals[s.symbol] = s; })\<close>. On a \<open>null\<close> element
  \<open>s.symbol\<close> throws a TypeError and the loop stops; what it has assigned so far stays.
  The flag says whether it threw.
\<close>

fun forEach_history :: "Signal option list \<Rightarrow> state \<Rightarrow> state \<times> bool" where
  "forEach_history [] st = (st, False)"
| "forEach_history (None # rest) st = (st, True)"
| "forEach_history (Some s # rest) st = forEach_history rest (set_property s st)"

text \<open>
  The \<open>Update\<close> branch. \<open>if (activeSignals[update.symbol])\<close> is true for every object
  and function, and for a truthy primitive. The two assignments then write \<open>price\<close> and
  \<open>volume\<close> of whatever was found: the registry entry, the prototype object, or a
  built-in function (where nothing reads them again). Assigning a property of a
  primitive throws a TypeError, the component being module code and so strict.
\<close>

definition apply_update :: "SignalUpdate \<Rightarrow> state \<Rightarrow> state" where
  "apply_update update st =
     (case get_property st (u_symbol update) of
        Entry s \<Rightarrow>
          st\<lparr>activeSignals :=
               AList.map_entry (u_symbol update)
                 (\<lambda>e. e\<lparr>price := u_price update, volume := u_volume update\<rparr>)
                 (activeSignals st)\<rparr>
      | Prototype_signal p \<Rightarrow>
          st\<lparr>proto := Some (p\<lparr>price := u_price update, volume := u_volume update\<rparr>)\<rparr>
      | Object_prototype \<Rightarrow>
          st\<lparr>object_prototype_price := Some (u_price update),
             object_prototype_volume := Some (u_volume update)\<rparr>
      | Builtin_function \<Rightarrow> st
      | Primitive b \<Rightarrow> (if b then log_error st else st)
      | Undefined \<Rightarrow> st)"

fun onmessage :: "frame \<Rightarrow> state \<Rightarrow> state" where
  "onmessage Malformed st = log_error st"
| "onmessage Other st = st"
| "onmessage (Stats_frame payload) st = st\<lparr>stats := payload\<rparr>"
| "onmessage (Signal_frame None) st = log_error st"
| "onmessage (Signal_frame (Some signal)) st =
     playBeep (showToast signal (spread (set_property signal st)))"
| "onmessage (History_frame history) st =
     (case forEach_history history st of
        (st', True) \<Rightarrow> log_error st'
      | (st', False) \<Rightarrow> spread st')"
| "onmessage (Update_frame None) st = log_error st"
| "onmessage (Update_frame (Some update)) st = apply_update update st"

text \<open>The frames of a connection, handled in arrival order.\<close>

definition process :: "frame list \<Rightarrow> state \<Rightarrow> state" where
  "process frames st = foldl (\<lambda>s f. onmessage f s) st frames"

definition clearHistory :: "state \<Rightarrow> state" where
  "clearHistory st = st\<lparr>activeSignals := [], proto := None\<rparr>"

section \<open>Derived views\<close>

text \<open>
  \<open>Object.values\<close> lists the own properties: first the keys that are array indices
  (canonical decimal numerals below \<open>2^32 - 1\<close>) in ascending order, then the other keys
  in creation order.
\<close>

definition is_digit :: "char \<Rightarrow> bool" where
  "is_digit c = (48 \<le> (of_char c :: nat) \<and> (of_char c :: nat) \<le> 57)"

definition digits_value :: "string \<Rightarrow> nat" where
  "digits_value s = foldl (\<lambda>n c. 10 * n + ((of_char c :: nat) - 48)) 0 s"

definition is_array_index :: "string \<Rightarrow> bool" where
  "is_array_index s =
     (s \<noteq> [] \<and> list_all is_digit s \<and> (s = ''0'' \<or> hd s \<noteq> CHR ''0'')
      \<and> digits_value s < 2 ^ 32 - 1)"

definition Object_values :: "(string \<times> Signal) list \<Rightarrow> Signal list" where
  "Object_values obj =
     map snd (sort_key (\<lambda>e. digits_value (fst e)) (filter (\<lambda>e. is_array_index (fst e)) obj)
              @ filter (\<lambda>e. \<not> is_array_index (fst e)) obj)"

text \<open>\<open>Object.values(activeSignals).sort((a,b) => b.timestamp - a.timestamp)\<close>:
  a stable sort, latest timestamp first.\<close>

definition sortedActiveSignals :: "state \<Rightarrow> Signal list" where
  "sortedActiveSignals st = sort_key (\<lambda>s. - timestamp s) (Object_values (activeSignals st))"

text \<open>The live feed of the template:
  \<open>sortedActiveSignals.filter(s => now - s.timestamp < 60 * 60 * 1000)\<close>.\<close>

definition activeFeed :: "int \<Rightarrow> state \<Rightarrow> Signal list" where
  "activeFeed now st =
     filter (\<lambda>s. now - timestamp s < 60 * 60 * 1000) (sortedActiveSignals st)"

definition getProgress :: "int \<Rightarrow> int \<Rightarrow> real" where
  "getProgress now ts =
     (let elapsed = now - ts; total = 60 * 60 * 1000
      in min 100 ((real_of_int elapsed / real_of_int total) * 100))"

section \<open>A scenario\<close>

text \<open>The values of the end-to-end scenario: a \<open>Long\<close> signal for \<open>BTC\<close> raised at
  time 0, and an update for it ten minutes later.\<close>

definition btc_signal :: Signal where
  "btc_signal =
     \<lparr>symbol = ''BTC'', signal_type = Long, price = 100, volume = 5, avg_volume = 2,
      timestamp = 0, reason = ''volume spike'',
      order_book_ratio = None, oi = None, net_inflow = None\<rparr>"

definition btc_update :: SignalUpdate where
  "btc_update = \<lparr>u_symbol = ''BTC'', u_price = 101, u_volume = 6, u_timestamp = 600000\<rparr>"


section \<open>What each step leaves alone\<close>

text \<open>
  Assigning an entry, running the loop over a history and applying an update touch
  neither the statistics cell nor the toast nor the call counters.
\<close>

lemma set_property_frame [simp]:
  "stats (set_property s st) = stats st"
  "toastMessage (set_property s st) = toastMessage st"
  "toastType (set_property s st) = toastType st"
  "toast_calls (set_property s st) = toast_calls st"
  "beep_calls (set_property s st) = beep_calls st"
  "error_calls (set_property s st) = error_calls st"
  "object_prototype_price (set_property s st) = object_prototype_price st"
  "object_prototype_volume (set_property s st) = object_prototype_volume st"
  by (simp_all add: set_property_def)

lemma activeSignals_set_property:
  "activeSignals (set_property s st) =
     (if symbol s = ''__proto__'' then activeSignals st
      else AList.update (symbol s) s (activeSignals st))"
  by (simp add: set_property_def)

lemma forEach_history_frame:
  "forEach_history h st = (st', b) \<Longrightarrow>
     stats st' = stats st \<and> toastMessage st' = toastMessage st \<and> toastType st' = toastType st
     \<and> toast_calls st' = toast_calls st \<and> beep_calls st' = beep_calls st
     \<and> error_calls st' = error_calls st
     \<and> object_prototype_price st' = object_prototype_price st
     \<and> object_prototype_volume st' = object_prototype_volume st"
  by (induction h st rule: forEach_history.induct) simp_all

lemma forEach_history_Some:
  "forEach_history (map Some hs) st = (foldl (\<lambda>s h. set_property h s) st hs, False)"
  by (induction hs arbitrary: st) simp_all

lemma map_fst_map_entry: "map fst (AList.map_entry k f xs) = map fst xs"
  by (induction xs) simp_all

lemma apply_update_frame [simp]:
  "stats (apply_update u st) = stats st"
  "toastMessage (apply_update u st) = toastMessage st"
  "toastType (apply_update u st) = toastType st"
  "toast_calls (apply_update u st) = toast_calls st"
  "beep_calls (apply_update u st) = beep_calls st"
  by (simp_all add: apply_update_def log_error_def split: property.splits)

lemma map_fst_apply_update:
  "map fst (activeSignals (apply_update u st)) = map fst (activeSignals st)"
  by (simp add: apply_update_def log_error_def map_fst_map_entry split: property.splits)

lemma get_property_Entry:
  "map_of (activeSignals st) k = Some s \<Longrightarrow> get_property st k = Entry s"
  by (simp add: get_property_def)

lemma get_property_not_Entry:
  "map_of (activeSignals st) k = None \<Longrightarrow> get_property st k \<noteq> Entry s"
  by (simp add: get_property_def object_prototype_property_def split: option.splits)

lemma process_simps [simp]:
  "process [] st = st"
  "process (f # fs) st = process fs (onmessage f st)"
  by (simp_all add: process_def)

lemma process_append: "process (fs @ gs) st = process gs (process fs st)"
  by (simp add: process_def)

lemma activeSignals_Signal_frame:
  "activeSignals (onmessage (Signal_frame (Some s)) st) = activeSignals (set_property s st)"
  by (simp add: playBeep_def showToast_def spread_def)

lemma activeSignals_Signal_frame_update:
  "activeSignals (onmessage (Signal_frame (Some s)) st) =
     (if symbol s = ''__proto__'' then activeSignals st
      else AList.update (symbol s) s (activeSignals st))"
  by (simp only: activeSignals_Signal_frame activeSignals_set_property)

lemma activeSignals_set_property_cong:
  "activeSignals st = activeSignals st' \<Longrightarrow>
     activeSignals (set_property s st) = activeSignals (set_property s st')"
  by (simp add: activeSignals_set_property)

lemma history_registry_as_signals:
  "activeSignals st = activeSignals st' \<Longrightarrow>
     activeSignals (foldl (\<lambda>s h. set_property h s) st hs)
       = activeSignals (process (map (\<lambda>s. Signal_frame (Some s)) hs) st')"
proof (induction hs arbitrary: st st')
  case Nil
  then show ?case by simp
next
  case (Cons h hs)
  have "activeSignals (set_property h st)
      = activeSignals (onmessage (Signal_frame (Some h)) st')"
    unfolding activeSignals_Signal_frame
    using Cons.prems by (rule activeSignals_set_property_cong)
  from Cons.IH [OF this] show ?case
    by (simp only: foldl_Cons list.map process_simps)
qed

section \<open>Signal messages\<close>

text \<open>
  For every symbol but \<open>__proto__\<close> the last \<open>Signal\<close> message wins: its payload is
  the entry of its symbol, whatever was there before, and the entries of the other
  symbols stay. The keys of the registry are distinct in every state the handler can
  reach.
\<close>

lemma signal_last_write_wins:
  "symbol s \<noteq> ''__proto__'' \<Longrightarrow>
     map_of (activeSignals (onmessage (Signal_frame (Some s)) st)) (symbol s) = Some s"
  by (simp add: playBeep_def showToast_def spread_def set_property_def update_conv')

lemma signal_other_entries:
  "k \<noteq> symbol s \<Longrightarrow>
     map_of (activeSignals (onmessage (Signal_frame (Some s)) st)) k = map_of (activeSignals st) k"
  by (simp add: playBeep_def showToast_def spread_def set_property_def update_conv')

lemma signals_last_write_wins:
  assumes "S \<noteq> ''__proto__''" and "symbol s = S"
  shows "map_of (activeSignals (process (map (\<lambda>s. Signal_frame (Some s)) (ss @ [s])) st)) S = Some s"
  using assms signal_last_write_wins [of s "process (map (\<lambda>s. Signal_frame (Some s)) ss) st"]
  by (simp add: process_append)

lemma distinct_set_property:
  "distinct (map fst (activeSignals st)) \<Longrightarrow> distinct (map fst (activeSignals (set_property s st)))"
  by (simp add: activeSignals_set_property distinct_update)

lemma distinct_forEach_history:
  "distinct (map fst (activeSignals st)) \<Longrightarrow>
     distinct (map fst (activeSignals (fst (forEach_history h st))))"
  by (induction h st rule: forEach_history.induct) (simp_all add: distinct_set_property)

lemma distinct_onmessage:
  assumes "distinct (map fst (activeSignals st))"
  shows "distinct (map fst (activeSignals (onmessage f st)))"
proof (cases f)
  case (History_frame h)
  obtain st' b where r: "forEach_history h st = (st', b)"
    by (cases "forEach_history h st")
  from distinct_forEach_history [OF assms, of h] r
  have "distinct (map fst (activeSignals st'))" by simp
  with r History_frame show ?thesis
    by (cases b) (simp_all add: log_error_def spread_def)
next
  case (Signal_frame o1)
  show ?thesis
  proof (cases o1)
    case None
    with Signal_frame assms show ?thesis by (simp add: log_error_def)
  next
    case (Some s)
    from assms have "distinct (map fst (activeSignals (onmessage (Signal_frame (Some s)) st)))"
      unfolding activeSignals_Signal_frame_update by (simp add: distinct_update)
    with Signal_frame Some show ?thesis by (simp only:)
  qed
next
  case (Update_frame o1)
  with assms show ?thesis
    by (cases o1) (simp_all add: log_error_def map_fst_apply_update)
qed (insert assms, simp_all add: log_error_def)

lemma distinct_process:
  "distinct (map fst (activeSignals st)) \<Longrightarrow> distinct (map fst (activeSignals (process fs st)))"
  by (induction fs arbitrary: st) (simp_all add: distinct_onmessage)

lemma one_entry_per_symbol: "distinct (map fst (activeSignals (process fs initial)))"
  by (rule distinct_process) (simp add: initial_def)

text \<open>
  Claim C1 says that after \<open>Signal\<close> messages for a symbol \<open>S\<close> the registry entry for
  \<open>S\<close> is the payload of the latest one, for every \<open>S\<close>. For the symbol \<open>__proto__\<close>
  the handler does otherwise: the assignment \<open>activeSignals[signal.symbol] = signal\<close>
  sets the prototype of the object, the copy \<open>{ ...activeSignals }\<close> drops it, and the
  registry has no entry for the symbol although the toast announces the signal.
\<close>

theorem signal_for_proto_key_leaves_no_entry:
  "map_of (activeSignals
       (onmessage (Signal_frame (Some (btc_signal\<lparr>symbol := ''__proto__''\<rparr>))) initial))
     ''__proto__'' = None
   \<and> activeSignals
       (onmessage (Signal_frame (Some (btc_signal\<lparr>symbol := ''__proto__''\<rparr>))) initial) = []
   \<and> toastMessage
       (onmessage (Signal_frame (Some (btc_signal\<lparr>symbol := ''__proto__''\<rparr>))) initial)
     = Some ''Long Signal: __proto__''"
  by (simp add: btc_signal_def initial_def set_property_def spread_def showToast_def playBeep_def
      show_SignalType_def)

section \<open>Update messages\<close>

text \<open>
  Claim C2. An \<open>Update\<close> for a symbol that has an entry in the registry overwrites
  \<open>price\<close> and \<open>volume\<close> of that entry and nothing else: the entry keeps its
  \<open>timestamp\<close> and every other field, the entries of all other symbols and the order of
  the keys stay as they were, and so does the rest of the state.
\<close>

theorem update_overwrites_price_and_volume_only:
  assumes "map_of (activeSignals st) (u_symbol u) = Some s"
  shows "map_of (activeSignals (onmessage (Update_frame (Some u)) st)) (u_symbol u)
           = Some (s\<lparr>price := u_price u, volume := u_volume u\<rparr>)
       \<and> timestamp (s\<lparr>price := u_price u, volume := u_volume u\<rparr>) = timestamp s
       \<and> (\<forall>k. k \<noteq> u_symbol u \<longrightarrow>
            map_of (activeSignals (onmessage (Update_frame (Some u)) st)) k
              = map_of (activeSignals st) k)
       \<and> map fst (activeSignals (onmessage (Update_frame (Some u)) st))
           = map fst (activeSignals st)
       \<and> onmessage (Update_frame (Some u)) st
           = st\<lparr>activeSignals := activeSignals (onmessage (Update_frame (Some u)) st)\<rparr>"
  using assms
  by (simp add: apply_update_def get_property_Entry map_of_map_entry map_fst_map_entry)

theorem update_overwrites_price_and_volume_only_witness:
  "map_of (activeSignals (onmessage (Update_frame (Some btc_update))
       (onmessage (Signal_frame (Some btc_signal)) initial))) ''BTC''
     = Some (btc_signal\<lparr>price := 101, volume := 6\<rparr>)
   \<and> timestamp (btc_signal\<lparr>price := 101, volume := 6\<rparr>) = 0"
  using update_overwrites_price_and_volume_only
    [of "onmessage (Signal_frame (Some btc_signal)) initial" btc_update btc_signal]
  by (simp add: btc_signal_def btc_update_def initial_def set_property_def spread_def
      showToast_def playBeep_def)

text \<open>
  An \<open>Update\<close> for a symbol without an entry never changes the registry, and it is
  silent unless the lookup \<open>activeSignals[update.symbol]\<close> finds a truthy primitive on
  the prototype chain.
\<close>

lemma orphan_update_registry:
  "map_of (activeSignals st) (u_symbol u) = None \<Longrightarrow>
     activeSignals (apply_update u st) = activeSignals st"
  using get_property_not_Entry [of st "u_symbol u"]
  by (simp add: apply_update_def log_error_def split: property.splits)

lemma orphan_update_silent:
  "get_property st (u_symbol u) \<noteq> Primitive True \<Longrightarrow>
     error_calls (apply_update u st) = error_calls st"
  by (auto simp add: apply_update_def log_error_def split: property.splits)

text \<open>
  Claim C3 says that an \<open>Update\<close> for a symbol with no entry changes nothing and raises
  no error. The registry indeed stays as it is, but an error can be raised: an
  \<open>Update\<close> for \<open>__proto__\<close> finds \<open>Object.prototype\<close> and writes \<open>price\<close> and
  \<open>volume\<close> there; a later \<open>Update\<close> for the symbol \<open>price\<close>, which has no entry, then
  finds that number, the assignment to a property of it throws, and the handler logs an
  error.
\<close>

theorem orphan_update_after_proto_update_logs_error:
  "map_of (activeSignals
       (onmessage (Update_frame (Some (btc_update\<lparr>u_symbol := ''__proto__''\<rparr>))) initial))
     ''price'' = None
   \<and> error_calls
       (onmessage (Update_frame (Some (btc_update\<lparr>u_symbol := ''__proto__''\<rparr>))) initial) = 0
   \<and> error_calls
       (onmessage (Update_frame (Some (btc_update\<lparr>u_symbol := ''price''\<rparr>)))
          (onmessage (Update_frame (Some (btc_update\<lparr>u_symbol := ''__proto__''\<rparr>))) initial)) = 1"
  by (simp add: btc_update_def initial_def apply_update_def get_property_def
      object_prototype_property_def log_error_def)

section \<open>The live feed\<close>

lemma mset_Object_values: "mset (Object_values obj) = mset (map snd obj)"
proof -
  have "mset (sort_key (\<lambda>e. digits_value (fst e)) (filter (\<lambda>e. is_array_index (fst e)) obj)
              @ filter (\<lambda>e. \<not> is_array_index (fst e)) obj) = mset obj"
    by simp
  then show ?thesis
    unfolding Object_values_def mset_map by (rule arg_cong)
qed

lemma mset_sortedActiveSignals:
  "mset (sortedActiveSignals st) = mset (map snd (activeSignals st))"
  by (simp add: sortedActiveSignals_def mset_Object_values)

lemma sortedActiveSignals_descending:
  "sorted_wrt (\<lambda>a b. timestamp b \<le> timestamp a) (sortedActiveSignals st)"
proof -
  have "sorted (map (\<lambda>s. - timestamp s) (sortedActiveSignals st))"
    by (simp add: sortedActiveSignals_def)
  then show ?thesis by (simp add: sorted_map)
qed

text \<open>
  Claim C4. The live feed holds exactly the registry entries whose age
  \<open>now - timestamp\<close> is less than 60 minutes, each once; an entry aged exactly 60
  minutes is not in it; and it is ordered by timestamp, latest first.
\<close>

theorem activeFeed_young_entries_latest_first:
  "mset (activeFeed now st)
     = filter_mset (\<lambda>s. now - timestamp s < 60 * 60 * 1000) (mset (map snd (activeSignals st)))
   \<and> set (activeFeed now st)
     = {s \<in> snd ` set (activeSignals st). now - timestamp s < 60 * 60 * 1000}
   \<and> (\<forall>s \<in> snd ` set (activeSignals st).
         now - timestamp s = 60 * 60 * 1000 \<longrightarrow> s \<notin> set (activeFeed now st))
   \<and> sorted_wrt (\<lambda>a b. timestamp b \<le> timestamp a) (activeFeed now st)"
proof -
  have m: "mset (activeFeed now st)
     = filter_mset (\<lambda>s. now - timestamp s < 60 * 60 * 1000) (mset (map snd (activeSignals st)))"
    by (simp add: activeFeed_def mset_sortedActiveSignals)
  have "set (sortedActiveSignals st) = snd ` set (activeSignals st)"
    using mset_sortedActiveSignals [of st, THEN arg_cong, of set_mset] by simp
  then have s: "set (activeFeed now st)
     = {s \<in> snd ` set (activeSignals st). now - timestamp s < 60 * 60 * 1000}"
    by (simp add: activeFeed_def)
  have d: "sorted_wrt (\<lambda>a b. timestamp b \<le> timestamp a) (activeFeed now st)"
    unfolding activeFeed_def
    by (rule sorted_wrt_filter) (rule sortedActiveSignals_descending)
  from m s d show ?thesis by simp
qed

theorem activeFeed_young_entries_latest_first_witness:
  "map symbol (activeFeed 3600000
      (process [Signal_frame (Some btc_signal),
                Signal_frame (Some (btc_signal\<lparr>symbol := ''ETH'', timestamp := 1\<rparr>)),
                Signal_frame (Some (btc_signal\<lparr>symbol := ''SOL'', timestamp := 2\<rparr>))] initial))
     = [''SOL'', ''ETH'']
   \<and> sorted_wrt (\<lambda>a b. timestamp b \<le> timestamp a) (activeFeed 3600000
      (process [Signal_frame (Some btc_signal),
                Signal_frame (Some (btc_signal\<lparr>symbol := ''ETH'', timestamp := 1\<rparr>)),
                Signal_frame (Some (btc_signal\<lparr>symbol := ''SOL'', timestamp := 2\<rparr>))] initial))"
  using activeFeed_young_entries_latest_first [of 3600000
      "process [Signal_frame (Some btc_signal),
                Signal_frame (Some (btc_signal\<lparr>symbol := ''ETH'', timestamp := 1\<rparr>)),
                Signal_frame (Some (btc_signal\<lparr>symbol := ''SOL'', timestamp := 2\<rparr>))] initial"]
  by (simp add: btc_signal_def initial_def process_def set_property_def spread_def showToast_def
      playBeep_def activeFeed_def sortedActiveSignals_def Object_values_def is_array_index_def
      is_digit_def digits_value_def)

text \<open>The scenario end to end: the signal, its update ten minutes later and a
  statistics message give a feed of one entry, with the price of the update and the
  timestamp of the signal.\<close>

lemma end_to_end_scenario:
  "activeFeed 600000
     (process [Signal_frame (Some btc_signal), Update_frame (Some btc_update),
               Stats_frame \<lparr>total_signals = 1, win_rate = 100, top_gainer = ''BTC''\<rparr>] initial)
     = [btc_signal\<lparr>price := 101, volume := 6\<rparr>]
   \<and> total_signals (stats
     (process [Signal_frame (Some btc_signal), Update_frame (Some btc_update),
               Stats_frame \<lparr>total_signals = 1, win_rate = 100, top_gainer = ''BTC''\<rparr>] initial))
     = 1"
  by (simp add: btc_signal_def btc_update_def initial_def set_property_def spread_def
      showToast_def playBeep_def apply_update_def get_property_def activeFeed_def
      sortedActiveSignals_def Object_values_def is_array_index_def is_digit_def
      digits_value_def)

section \<open>The progress bar\<close>

text \<open>
  \<open>getProgress\<close> grows with the elapsed time and never exceeds 100; it is 0 at the
  timestamp, 50 after 30 minutes and 100 from 60 minutes on. It is not negative once
  the clock has reached the timestamp, and negative before.
\<close>

lemma getProgress_eq:
  "getProgress now ts = min 100 (real_of_int (now - ts) / 36000)"
  by (simp add: getProgress_def Let_def)

lemma getProgress_mono:
  assumes "now - ts \<le> now' - ts'"
  shows "getProgress now ts \<le> getProgress now' ts'"
proof -
  from assms have "real_of_int (now - ts) \<le> real_of_int (now' - ts')"
    by (simp only: of_int_le_iff)
  then have "real_of_int (now - ts) / 36000 \<le> real_of_int (now' - ts') / 36000"
    by (rule divide_right_mono) simp
  then show ?thesis
    unfolding getProgress_eq by (rule min.mono [OF order_refl])
qed

lemma getProgress_le_100: "getProgress now ts \<le> 100"
  unfolding getProgress_eq by simp

lemma getProgress_nonneg: "ts \<le> now \<Longrightarrow> 0 \<le> getProgress now ts"
  unfolding getProgress_eq by simp

lemma getProgress_negative: "now < ts \<Longrightarrow> getProgress now ts < 0"
  unfolding getProgress_eq by simp

lemma getProgress_start: "getProgress t t = 0"
  unfolding getProgress_eq by simp

lemma getProgress_half: "now - ts = 30 * 60 * 1000 \<Longrightarrow> getProgress now ts = 50"
  unfolding getProgress_eq by simp

lemma getProgress_full: "60 * 60 * 1000 \<le> now - ts \<Longrightarrow> getProgress now ts = 100"
  unfolding getProgress_eq by (simp add: min_def)

text \<open>
  Claim C5 says that the progress value always lies between 0 and 100. \<open>getProgress\<close>
  bounds it from above only: for a signal stamped after \<open>now\<close>, as when the clock of
  the page, refreshed once a second, lags behind the sender, it is negative; one minute
  before the timestamp it is \<open>- 5 / 3\<close>.
\<close>

theorem getProgress_negative_before_timestamp:
  "getProgress 0 60000 = - 5 / 3 \<and> getProgress 0 60000 < 0"
  unfolding getProgress_eq by simp

section \<open>Notifications\<close>

text \<open>
  A \<open>Signal\<close> message calls \<open>showToast\<close> once and \<open>playBeep\<close> once and sets the toast
  to its type and symbol. A \<open>History\<close> message calls neither and leaves the toast as it
  was, whatever its array holds.
\<close>

lemma signal_notifies_once:
  "toast_calls (onmessage (Signal_frame (Some signal)) st) = toast_calls st + 1
   \<and> beep_calls (onmessage (Signal_frame (Some signal)) st) = beep_calls st + 1
   \<and> toastMessage (onmessage (Signal_frame (Some signal)) st)
       = Some (show_SignalType (signal_type signal) @ '' Signal: '' @ symbol signal)
   \<and> toastType (onmessage (Signal_frame (Some signal)) st) = signal_type signal"
  by (simp add: playBeep_def showToast_def spread_def)

lemma history_never_notifies:
  "toast_calls (onmessage (History_frame history) st) = toast_calls st
   \<and> beep_calls (onmessage (History_frame history) st) = beep_calls st
   \<and> toastMessage (onmessage (History_frame history) st) = toastMessage st
   \<and> toastType (onmessage (History_frame history) st) = toastType st"
proof -
  obtain st' b where r: "forEach_history history st = (st', b)"
    by (cases "forEach_history history st")
  from forEach_history_frame [OF r] r show ?thesis
    by (cases b) (simp_all add: log_error_def spread_def)
qed

text \<open>
  A \<open>History\<close> message whose signals all have a symbol other than \<open>__proto__\<close> upserts
  each of them: the registry after it maps the symbol of each signal to that signal, a
  later one replacing an earlier one of the same symbol, and maps every other symbol as
  before. With any array of signals it leaves the registry as the same signals do when
  they arrive as \<open>Signal\<close> messages one by one.
\<close>

lemma map_of_foldl_set_property:
  "list_all (\<lambda>s. symbol s \<noteq> ''__proto__'') hs \<Longrightarrow>
     map_of (activeSignals (foldl (\<lambda>s h. set_property h s) st hs))
       = foldl (\<lambda>m s. m(symbol s \<mapsto> s)) (map_of (activeSignals st)) hs"
proof (induction hs arbitrary: st)
  case Nil
  show ?case by simp
next
  case (Cons h hs)
  from Cons.prems have h: "symbol h \<noteq> ''__proto__''" and hs: "list_all (\<lambda>s. symbol s \<noteq> ''__proto__'') hs"
    by simp_all
  from h have "map_of (activeSignals (set_property h st)) = (map_of (activeSignals st))(symbol h \<mapsto> h)"
    by (simp add: activeSignals_set_property update_conv')
  with Cons.IH [OF hs, of "set_property h st"] show ?case by simp
qed

lemma history_upserts_each_signal:
  assumes "list_all (\<lambda>s. symbol s \<noteq> ''__proto__'') hs"
  shows "map_of (activeSignals (onmessage (History_frame (map Some hs)) st))
       = foldl (\<lambda>m s. m(symbol s \<mapsto> s)) (map_of (activeSignals st)) hs"
  using map_of_foldl_set_property [OF assms, of st]
  by (simp add: forEach_history_Some spread_def)

lemma history_registry_as_signal_messages:
  "activeSignals (onmessage (History_frame (map Some hs)) st)
     = activeSignals (process (map (\<lambda>s. Signal_frame (Some s)) hs) st)"
proof -
  have "activeSignals (onmessage (History_frame (map Some hs)) st)
      = activeSignals (foldl (\<lambda>s h. set_property h s) st hs)"
    by (simp add: forEach_history_Some spread_def)
  also have "\<dots> = activeSignals (process (map (\<lambda>s. Signal_frame (Some s)) hs) st)"
    by (rule history_registry_as_signals) simp
  finally show ?thesis .
qed

text \<open>
  Claim C6 says that a \<open>Signal\<close> message notifies exactly once and that a \<open>History\<close>
  message upserts each signal of its array without notifying, for every array. The
  notifications are as the claim says. The upsert is not, for an element with the
  symbol \<open>__proto__\<close>: in the loop the assignment \<open>activeSignals[s.symbol] = s\<close> sets the
  prototype of the object, the copy \<open>{ ...activeSignals }\<close> drops it, and the registry
  holds the other elements only, with no error logged.
\<close>

theorem history_element_for_proto_key_is_not_stored:
  "activeSignals
     (onmessage (History_frame [Some btc_signal, Some (btc_signal\<lparr>symbol := ''__proto__''\<rparr>)])
        initial)
     = [(''BTC'', btc_signal)]
   \<and> map_of (activeSignals
       (onmessage (History_frame [Some btc_signal, Some (btc_signal\<lparr>symbol := ''__proto__''\<rparr>)])
          initial)) ''__proto__'' = None
   \<and> error_calls
       (onmessage (History_frame [Some btc_signal, Some (btc_signal\<lparr>symbol := ''__proto__''\<rparr>)])
          initial) = 0
   \<and> toast_calls
       (onmessage (History_frame [Some btc_signal, Some (btc_signal\<lparr>symbol := ''__proto__''\<rparr>)])
          initial) = 0"
  by (simp add: btc_signal_def initial_def set_property_def spread_def)

section \<open>Frames that cannot be decoded\<close>

text \<open>
  Text that is not JSON, an unknown tag, a \<open>null\<close> payload and a history that starts
  with \<open>null\<close> change nothing but the error count, and a \<open>Signal\<close> message after one
  of them has the effect it has without it.
\<close>

lemma discarded_frame:
  assumes "f \<in> {Malformed, Other, Signal_frame None, Update_frame None,
                 History_frame (None # rest)}"
  shows "onmessage f st = st \<or> onmessage f st = log_error st"
  using assms by auto

lemma activeSignals_Signal_frame_log_error:
  "activeSignals (onmessage (Signal_frame (Some s)) (log_error st))
     = activeSignals (onmessage (Signal_frame (Some s)) st)"
  by (simp add: log_error_def playBeep_def showToast_def spread_def set_property_def)

lemma discarded_frame_then_signal:
  assumes "f \<in> {Malformed, Other, Signal_frame None, Update_frame None,
                 History_frame (None # rest)}"
  shows "activeSignals (process [f, Signal_frame (Some s)] st)
       = activeSignals (process [Signal_frame (Some s)] st)"
  using discarded_frame [OF assms, of st]
  by (auto simp only: process_simps activeSignals_Signal_frame_log_error)

text \<open>
  Claim C7 says that a frame that fails to decode leaves the registry as it was. A
  \<open>History\<close> frame whose array holds a signal and then \<open>null\<close> fails inside the loop, at
  \<open>s.symbol\<close> of the \<open>null\<close>, and the handler logs the error; the signal before the
  \<open>null\<close> has been assigned by then and stays in the registry.
\<close>

theorem history_with_null_element_is_half_applied:
  "activeSignals (onmessage (History_frame [Some btc_signal, None]) initial)
     = [(''BTC'', btc_signal)]
   \<and> error_calls (onmessage (History_frame [Some btc_signal, None]) initial) = 1"
  by (simp add: btc_signal_def initial_def set_property_def log_error_def)

section \<open>Clearing\<close>

text \<open>
  \<open>clearHistory\<close> empties the registry whatever it held, and an \<open>Update\<close> handled
  after it creates no entry and leaves the statistics and the toast as they were. It
  leaves the whole state as it was unless the lookup \<open>activeSignals[update.symbol]\<close>
  finds \<open>Object.prototype\<close> or a truthy primitive on the prototype chain.
\<close>

lemma clear_then_update_registry_stays_empty:
  "activeSignals (clearHistory st) = []
   \<and> activeSignals (onmessage (Update_frame (Some u)) (clearHistory st)) = []
   \<and> stats (onmessage (Update_frame (Some u)) (clearHistory st)) = stats st
   \<and> toastMessage (onmessage (Update_frame (Some u)) (clearHistory st)) = toastMessage st
   \<and> toast_calls (onmessage (Update_frame (Some u)) (clearHistory st)) = toast_calls st
   \<and> beep_calls (onmessage (Update_frame (Some u)) (clearHistory st)) = beep_calls st"
proof -
  have "map_of (activeSignals (clearHistory st)) (u_symbol u) = None"
    by (simp add: clearHistory_def)
  from orphan_update_registry [OF this] show ?thesis
    by (simp add: clearHistory_def)
qed

lemma clear_then_update_no_op:
  assumes "get_property (clearHistory st) (u_symbol u) \<in> {Undefined, Builtin_function, Primitive False}"
  shows "onmessage (Update_frame (Some u)) (clearHistory st) = clearHistory st"
  using assms by (auto simp add: apply_update_def)

text \<open>
  Claim C8 says that \<open>clearHistory\<close> empties the registry and that an \<open>Update\<close> handled
  afterwards, for a symbol that was there before, is a no-op. The registry is emptied
  and stays empty, but the update is not always a no-op: after an \<open>Update\<close> for
  \<open>__proto__\<close> has written \<open>price\<close> onto \<open>Object.prototype\<close> and a \<open>Signal\<close> has made an
  entry for the symbol \<open>price\<close>, the registry is cleared; an \<open>Update\<close> for \<open>price\<close> then
  finds the inherited number, the assignment to a property of it throws, and the handler
  logs an error.
\<close>

theorem update_after_clear_logs_error:
  "map_of (activeSignals
       (process [Update_frame (Some (btc_update\<lparr>u_symbol := ''__proto__''\<rparr>)),
                 Signal_frame (Some (btc_signal\<lparr>symbol := ''price''\<rparr>))] initial)) ''price''
     = Some (btc_signal\<lparr>symbol := ''price''\<rparr>)
   \<and> error_calls (clearHistory
       (process [Update_frame (Some (btc_update\<lparr>u_symbol := ''__proto__''\<rparr>)),
                 Signal_frame (Some (btc_signal\<lparr>symbol := ''price''\<rparr>))] initial)) = 0
   \<and> error_calls (onmessage (Update_frame (Some (btc_update\<lparr>u_symbol := ''price''\<rparr>)))
       (clearHistory
         (process [Update_frame (Some (btc_update\<lparr>u_symbol := ''__proto__''\<rparr>)),
                   Signal_frame (Some (btc_signal\<lparr>symbol := ''price''\<rparr>))] initial))) = 1
   \<and> onmessage (Update_frame (Some (btc_update\<lparr>u_symbol := ''price''\<rparr>)))
       (clearHistory
         (process [Update_frame (Some (btc_update\<lparr>u_symbol := ''__proto__''\<rparr>)),
                   Signal_frame (Some (btc_signal\<lparr>symbol := ''price''\<rparr>))] initial))
     \<noteq> clearHistory
         (process [Update_frame (Some (btc_update\<lparr>u_symbol := ''__proto__''\<rparr>)),
                   Signal_frame (Some (btc_signal\<lparr>symbol := ''price''\<rparr>))] initial)"
proof -
  define st0 where "st0 = process [Update_frame (Some (btc_update\<lparr>u_symbol := ''__proto__''\<rparr>)),
                 Signal_frame (Some (btc_signal\<lparr>symbol := ''price''\<rparr>))] initial"
  have a: "map_of (activeSignals st0) ''price'' = Some (btc_signal\<lparr>symbol := ''price''\<rparr>)"
    by (simp add: st0_def btc_signal_def btc_update_def initial_def apply_update_def
        get_property_def set_property_def spread_def showToast_def playBeep_def)
  have b: "error_calls (clearHistory st0) = 0"
    by (simp add: st0_def btc_signal_def btc_update_def initial_def apply_update_def
        get_property_def set_property_def spread_def showToast_def playBeep_def clearHistory_def)
  have c: "error_calls (onmessage (Update_frame (Some (btc_update\<lparr>u_symbol := ''price''\<rparr>)))
       (clearHistory st0)) = 1"
    by (simp add: st0_def btc_signal_def btc_update_def initial_def apply_update_def
        get_property_def set_property_def spread_def showToast_def playBeep_def clearHistory_def
        object_prototype_property_def log_error_def)
  from b c have d: "onmessage (Update_frame (Some (btc_update\<lparr>u_symbol := ''price''\<rparr>)))
       (clearHistory st0) \<noteq> clearHistory st0"
    by auto
  from a b c d show ?thesis unfolding st0_def by simp
qed

section \<open>Statistics\<close>

text \<open>
  Claim C9. Before any message the statistics cell holds the counters 0 and 0 and the
  placeholder \<open>---\<close> as top gainer; a \<open>Stats\<close> message replaces the whole cell by its
  payload.
\<close>

theorem stats_initial_and_replaced:
  "stats initial = \<lparr>total_signals = 0, win_rate = 0, top_gainer = ''---''\<rparr>
   \<and> stats (onmessage (Stats_frame payload) st) = payload"
  by (simp add: initial_def)

section \<open>Isolation of the components\<close>

lemma onmessage_stats:
  "(\<forall>p. f \<noteq> Stats_frame p) \<Longrightarrow> stats (onmessage f st) = stats st"
proof (cases f)
  case (History_frame h)
  obtain st' b where r: "forEach_history h st = (st', b)" by (cases "forEach_history h st")
  from forEach_history_frame [OF r] have "stats st' = stats st" by simp
  with r History_frame show ?thesis by (cases b) (simp_all add: log_error_def spread_def)
next
  case (Signal_frame o1)
  then show ?thesis by (cases o1) (simp_all add: log_error_def spread_def playBeep_def showToast_def)
next
  case (Update_frame o1)
  then show ?thesis by (cases o1) (simp_all add: log_error_def)
qed (simp_all add: log_error_def)

text \<open>
  Claim C10. A \<open>Stats\<close> message leaves the registry as it was; every other frame
  (\<open>Signal\<close>, \<open>Update\<close>, \<open>History\<close>, and the frames that are discarded) leaves the
  statistics cell as it was; \<open>clearHistory\<close> empties the registry and leaves the
  statistics cell as it was.
\<close>

theorem components_isolated:
  "activeSignals (onmessage (Stats_frame payload) st) = activeSignals st
   \<and> ((\<forall>p. f \<noteq> Stats_frame p) \<longrightarrow> stats (onmessage f st) = stats st)
   \<and> stats (clearHistory st) = stats st
   \<and> activeSignals (clearHistory st) = []"
  using onmessage_stats [of f st] by (simp add: clearHistory_def)

theorem components_isolated_witness:
  "activeSignals (onmessage (Stats_frame \<lparr>total_signals = 1, win_rate = 100, top_gainer = ''BTC''\<rparr>)
      (onmessage (Signal_frame (Some btc_signal)) initial)) = [(''BTC'', btc_signal)]
   \<and> stats (onmessage (Update_frame (Some btc_update))
        (onmessage (Signal_frame (Some btc_signal)) initial))
       = \<lparr>total_signals = 0, win_rate = 0, top_gainer = ''---''\<rparr>"
  using components_isolated
    [of "\<lparr>total_signals = 1, win_rate = 100, top_gainer = ''BTC''\<rparr>"
        "onmessage (Signal_frame (Some btc_signal)) initial"
        "Update_frame (Some btc_update)"]
  by (simp add: btc_signal_def btc_update_def initial_def set_property_def spread_def
      showToast_def playBeep_def)

end
